theory Spec2Isabelle
  imports Main
begin

section \<open>Data model of cache.go\<close>

text \<open>
  A \<^verbatim>\<open>time.Time\<close> is an instant on one time line, counted in nanoseconds from Go's
  zero time; the zero instant is the one \<^verbatim>\<open>IsZero\<close> recognises. A
  \<^verbatim>\<open>time.Duration\<close> is a signed number of nanoseconds. The time package is
  outside the repository, so only the three operations cache.go calls are given.
\<close>

type_synonym instant = int
type_synonym Duration = int

definition IsZero :: "instant \<Rightarrow> bool" where
  "IsZero t = (t = 0)"

definition Before :: "instant \<Rightarrow> instant \<Rightarrow> bool" where
  "Before t u = (t < u)"

definition Add :: "instant \<Rightarrow> Duration \<Rightarrow> instant" where
  "Add t d = t + d"

text \<open>\<^verbatim>\<open>type Item struct { Value interface{}; Expiration time.Time }\<close>\<close>

record 'v Item =
  Value :: 'v
  Expiration :: instant

text \<open>
  Items are handled through \<^verbatim>\<open>*Item\<close> pointers, and \<^verbatim>\<open>Set\<close> writes through the
  pointer, so the items live in a store of addresses. Go has no dangling pointers: every
  address holds an item, and a pointer is either nil or an address.
\<close>

datatype ptr = Null | Addr nat

text \<open>
  An \<^verbatim>\<open>interface{}\<close> value as far as cache.go inspects it: the nil interface, a
  \<^verbatim>\<open>*Item\<close> (which may be a nil pointer), or a value of any other dynamic type.
\<close>

datatype iface = INil | IItem ptr | IOther string

datatype panic = NilDereference | TypeAssertion

text \<open>The type assertion \<^verbatim>\<open>value.(*Item)\<close>: it panics unless the dynamic type is \<^verbatim>\<open>*Item\<close>.\<close>

fun assertItem :: "iface \<Rightarrow> panic + ptr" where
  "assertItem (IItem p) = Inr p"
| "assertItem INil = Inl TypeAssertion"
| "assertItem (IOther s) = Inl TypeAssertion"

text \<open>
  What lies outside the cache handle: the items behind the pointers, and the log of the
  keys \<^verbatim>\<open>Adapter.Query\<close> was called with, in call order.
\<close>

record 'v world =
  items :: "nat \<Rightarrow> 'v Item"
  queried :: "string list"

section \<open>Item.Expired\<close>

text \<open>The body of \<^verbatim>\<open>Expired\<close>, on the item the receiver points to.\<close>

definition Expired :: "'v Item \<Rightarrow> instant \<Rightarrow> bool" where
  "Expired me now =
     (if IsZero (Expiration me) then False
      else Before (Expiration me) now)"

text \<open>The call \<^verbatim>\<open>item.Expired(now)\<close> on a pointer: reading a field of nil panics.\<close>

fun Item_Expired :: "ptr \<Rightarrow> 'v world \<Rightarrow> instant \<Rightarrow> panic + bool" where
  "Item_Expired Null w now = Inl NilDereference"
| "Item_Expired (Addr a) w now = Inr (Expired (items w a) now)"

section \<open>simpleCache\<close>

text \<open>
  \<^verbatim>\<open>Adapter.Query(key) (interface{}, error)\<close> is a parameter of the cache: a function
  from the key to the pair it returns, \<open>None\<close> being the nil error.
\<close>

type_synonym 'e Adapter = "string \<Rightarrow> iface \<times> 'e option"

record 'e simpleCache =
  store :: "'e Adapter"
  ttl :: Duration
  entries :: "string \<rightharpoonup> iface"

definition NewSimpleCache :: "'e Adapter \<Rightarrow> Duration \<Rightarrow> 'e simpleCache" where
  "NewSimpleCache st d = \<lparr>store = st, ttl = d, entries = Map.empty\<rparr>"

text \<open>
  \<^verbatim>\<open>Set\<close>: \<open>now\<close> is the reading of \<^verbatim>\<open>time.Now()\<close> at line 66. The assignment to
  \<^verbatim>\<open>item.Expiration\<close> writes through the pointer and panics on nil.
\<close>

fun simpleCache_Set ::
  "'e simpleCache \<Rightarrow> 'v world \<Rightarrow> string \<Rightarrow> ptr \<Rightarrow> instant
     \<Rightarrow> panic + ('e simpleCache \<times> 'v world)" where
  "simpleCache_Set me w key item now =
     (if ttl me > 0 then
        (case item of
           Null \<Rightarrow> Inl NilDereference
         | Addr a \<Rightarrow>
             Inr (me\<lparr>entries := (entries me)(key \<mapsto> IItem item)\<rparr>,
                  w\<lparr>items := (items w)(a := (items w a)\<lparr>Expiration := Add now (ttl me)\<rparr>)\<rparr>))
      else Inr (me\<lparr>entries := (entries me)(key \<mapsto> IItem item)\<rparr>, w))"

text \<open>\<^verbatim>\<open>fetchAndStore\<close>: one call of the adapter, logged; \<open>now\<close> is handed to \<^verbatim>\<open>Set\<close>.\<close>

fun simpleCache_fetchAndStore ::
  "'e simpleCache \<Rightarrow> 'v world \<Rightarrow> string \<Rightarrow> instant
     \<Rightarrow> panic + ((ptr \<times> 'e option) \<times> 'e simpleCache \<times> 'v world)" where
  "simpleCache_fetchAndStore me w key now =
     (let (value, err) = store me key;
          w1 = w\<lparr>queried := queried w @ [key]\<rparr>
      in case err of
           Some e \<Rightarrow> Inr ((Null, Some e), me, w1)
         | None \<Rightarrow>
             (case assertItem value of
                Inl p \<Rightarrow> Inl p
              | Inr item \<Rightarrow>
                  (case simpleCache_Set me w1 key item now of
                     Inl p \<Rightarrow> Inl p
                   | Inr (me', w') \<Rightarrow> Inr ((item, None), me', w'))))"

text \<open>
  \<^verbatim>\<open>Get\<close>: \<open>now\<close> is the reading of \<^verbatim>\<open>time.Now()\<close> at line 57, \<open>later\<close> the one
  \<^verbatim>\<open>Set\<close> takes when the fetch path runs.
\<close>

fun simpleCache_Get ::
  "'e simpleCache \<Rightarrow> 'v world \<Rightarrow> string \<Rightarrow> instant \<Rightarrow> instant
     \<Rightarrow> panic + ((ptr \<times> 'e option) \<times> 'e simpleCache \<times> 'v world)" where
  "simpleCache_Get me w key now later =
     (case entries me key of
        None \<Rightarrow> simpleCache_fetchAndStore me w key later
      | Some value \<Rightarrow>
          (case assertItem value of
             Inl p \<Rightarrow> Inl p
           | Inr item \<Rightarrow>
               (case Item_Expired item w now of
                  Inl p \<Rightarrow> Inl p
                | Inr True \<Rightarrow> simpleCache_fetchAndStore me w key later
                | Inr False \<Rightarrow> Inr ((item, None), me, w))))"

section \<open>coalescedCache\<close>

text \<open>
  The handle of the coalescing variant. Its \<^verbatim>\<open>entries\<close> is a \<^verbatim>\<open>sync.Map\<close>, which
  cache.go only loads from and stores to under string keys; its
  \<^verbatim>\<open>singleflight.Group\<close> holds nothing between calls.
\<close>

record 'e coalescedCache =
  co_store :: "'e Adapter"
  co_ttl :: Duration
  co_entries :: "string \<rightharpoonup> iface"

definition NewCoalescedCache :: "'e Adapter \<Rightarrow> Duration \<Rightarrow> 'e coalescedCache" where
  "NewCoalescedCache st d = \<lparr>co_store = st, co_ttl = d, co_entries = Map.empty\<rparr>"

fun coalescedCache_Set ::
  "'e coalescedCache \<Rightarrow> 'v world \<Rightarrow> string \<Rightarrow> ptr \<Rightarrow> instant
     \<Rightarrow> panic + ('e coalescedCache \<times> 'v world)" where
  "coalescedCache_Set me w key item now =
     (if co_ttl me > 0 then
        (case item of
           Null \<Rightarrow> Inl NilDereference
         | Addr a \<Rightarrow>
             Inr (me\<lparr>co_entries := (co_entries me)(key \<mapsto> IItem item)\<rparr>,
                  w\<lparr>items := (items w)(a := (items w a)\<lparr>Expiration := Add now (co_ttl me)\<rparr>)\<rparr>))
      else Inr (me\<lparr>co_entries := (co_entries me)(key \<mapsto> IItem item)\<rparr>, w))"

fun coalescedCache_fetchAndStore ::
  "'e coalescedCache \<Rightarrow> 'v world \<Rightarrow> string \<Rightarrow> instant
     \<Rightarrow> panic + ((ptr \<times> 'e option) \<times> 'e coalescedCache \<times> 'v world)" where
  "coalescedCache_fetchAndStore me w key now =
     (let (value, err) = co_store me key;
          w1 = w\<lparr>queried := queried w @ [key]\<rparr>
      in case err of
           Some e \<Rightarrow> Inr ((Null, Some e), me, w1)
         | None \<Rightarrow>
             (case assertItem value of
                Inl p \<Rightarrow> Inl p
              | Inr item \<Rightarrow>
                  (case coalescedCache_Set me w1 key item now of
                     Inl p \<Rightarrow> Inl p
                   | Inr (me', w') \<Rightarrow> Inr ((item, None), me', w'))))"

text \<open>
  \<^verbatim>\<open>singleflight.Do(key, fn)\<close> for a caller that finds no call for \<open>key\<close> in flight:
  it runs \<open>fn\<close> and hands back what \<open>fn\<close> returned, with \<open>shared\<close> false. The function
  is a closure over the handle, so it is a transformer of the state \<open>s\<close>.
\<close>

definition singleflight_Do ::
  "string \<Rightarrow> ('s \<Rightarrow> panic + ((iface \<times> 'e option) \<times> 's)) \<Rightarrow> 's
     \<Rightarrow> panic + ((iface \<times> 'e option \<times> bool) \<times> 's)" where
  "singleflight_Do key fn s =
     (case fn s of
        Inl p \<Rightarrow> Inl p
      | Inr ((v, err), s') \<Rightarrow> Inr ((v, err, False), s'))"

text \<open>
  The function literal of \<^verbatim>\<open>coalescedCache.Get\<close> (lines 210 to 221). Returning the
  \<^verbatim>\<open>*Item\<close> of \<^verbatim>\<open>fetchAndStore\<close> as an \<^verbatim>\<open>interface{}\<close> wraps the pointer, nil or not.
\<close>

fun coalescedCache_Get_fn ::
  "string \<Rightarrow> instant \<Rightarrow> instant \<Rightarrow> 'e coalescedCache \<times> 'v world
     \<Rightarrow> panic + ((iface \<times> 'e option) \<times> 'e coalescedCache \<times> 'v world)" where
  "coalescedCache_Get_fn key now later (me, w) =
     (let fetch =
            (case coalescedCache_fetchAndStore me w key later of
               Inl p \<Rightarrow> Inl p
             | Inr ((it, err), s') \<Rightarrow> Inr ((IItem it, err), s'))
      in case co_entries me key of
           None \<Rightarrow> fetch
         | Some item \<Rightarrow>
             (case assertItem item of
                Inl p \<Rightarrow> Inl p
              | Inr it \<Rightarrow>
                  (case Item_Expired it w now of
                     Inl p \<Rightarrow> Inl p
                   | Inr True \<Rightarrow> fetch
                   | Inr False \<Rightarrow> Inr ((item, None), me, w))))"

fun coalescedCache_Get ::
  "'e coalescedCache \<Rightarrow> 'v world \<Rightarrow> string \<Rightarrow> instant \<Rightarrow> instant
     \<Rightarrow> panic + ((ptr \<times> 'e option) \<times> 'e coalescedCache \<times> 'v world)" where
  "coalescedCache_Get me w key now later =
     (case singleflight_Do key (coalescedCache_Get_fn key now later) (me, w) of
        Inl p \<Rightarrow> Inl p
      | Inr ((value, err, shared), s') \<Rightarrow>
          (case assertItem value of
             Inl p \<Rightarrow> Inl p
           | Inr item \<Rightarrow> Inr ((item, err), s')))"

section \<open>Observations and callers\<close>

text \<open>
  \<^verbatim>\<open>Get\<close> calls \<^verbatim>\<open>fetchAndStore\<close> at line 53 when the key is absent and at line 58
  when the stored item has expired at \<open>now\<close>; this is the condition of those two
  branches, over the entries of either handle.
\<close>

definition miss_or_expired ::
  "(string \<rightharpoonup> iface) \<Rightarrow> 'v world \<Rightarrow> string \<Rightarrow> instant \<Rightarrow> bool" where
  "miss_or_expired es w key now =
     (case es key of
        None \<Rightarrow> True
      | Some (IItem (Addr a)) \<Rightarrow> Expired (items w a) now
      | Some _ \<Rightarrow> False)"

text \<open>The item a key maps to: the one behind the stored pointer, if there is one.\<close>

definition stored_item :: "(string \<rightharpoonup> iface) \<Rightarrow> 'v world \<Rightarrow> string \<Rightarrow> 'v Item option" where
  "stored_item es w key =
     (case es key of
        Some (IItem (Addr a)) \<Rightarrow> Some (items w a)
      | _ \<Rightarrow> None)"

text \<open>
  A caller that issues one \<^verbatim>\<open>Get\<close> after another, each with its key and its two clock
  readings, and stops at the first panic.
\<close>

fun simpleCache_Gets ::
  "'e simpleCache \<Rightarrow> 'v world \<Rightarrow> (string \<times> instant \<times> instant) list
     \<Rightarrow> panic + ('e simpleCache \<times> 'v world)" where
  "simpleCache_Gets me w [] = Inr (me, w)"
| "simpleCache_Gets me w ((key, now, later) # calls) =
     (case simpleCache_Get me w key now later of
        Inl p \<Rightarrow> Inl p
      | Inr (r, me', w') \<Rightarrow> simpleCache_Gets me' w' calls)"

text \<open>The item a key maps to once a call has returned; nothing after a panic.\<close>

definition stored_after ::
  "panic + ('r \<times> 'e simpleCache \<times> 'v world) \<Rightarrow> string \<Rightarrow> 'v Item option" where
  "stored_after res key =
     (case res of
        Inl p \<Rightarrow> None
      | Inr (r, me', w') \<Rightarrow> stored_item (entries me') w' key)"

section \<open>Example adapters\<close>

text \<open>
  The adapter of the repository's tests hands out one shared \<^verbatim>\<open>*Item\<close> for every key,
  here the item at address 0, whose value is \<^verbatim>\<open>"hey oh"\<close> and whose expiration is unset.
\<close>

definition hey_source :: "string Adapter" where
  "hey_source key = (IItem (Addr 0), None)"

definition hey_world :: "string world" where
  "hey_world = \<lparr>items = (\<lambda>a. \<lparr>Value = ''hey oh'', Expiration = 0\<rparr>), queried = []\<rparr>"

text \<open>The same items, but carrying the expiration instant 5 before the cache sees them.\<close>

definition stamped_world :: "string world" where
  "stamped_world = \<lparr>items = (\<lambda>a. \<lparr>Value = ''hey oh'', Expiration = 5\<rparr>), queried = []\<rparr>"

text \<open>An adapter that fails on every key, and one that answers with a plain string.\<close>

definition failing_source :: "string Adapter" where
  "failing_source key = (INil, Some ''unavailable'')"

definition plain_source :: "string Adapter" where
  "plain_source key = (IOther ''hey oh'', None)"

text \<open>An adapter that succeeds on every key with a nil \<^verbatim>\<open>*Item\<close> and a nil error.\<close>

definition nil_source :: "string Adapter" where
  "nil_source key = (IItem Null, None)"

section \<open>Basic facts\<close>

lemma assertItem_Inr: "assertItem v = Inr p \<Longrightarrow> v = IItem p"
  by (cases v) auto

lemma assertItem_other: "\<forall>p. v \<noteq> IItem p \<Longrightarrow> assertItem v = Inl TypeAssertion"
  by (cases v) auto

text \<open>On a miss or an expired entry, \<^verbatim>\<open>Get\<close> is the fetch path, in both variants.\<close>

lemma simpleCache_Get_fetches:
  "miss_or_expired (entries me) w key now \<Longrightarrow>
   simpleCache_Get me w key now later = simpleCache_fetchAndStore me w key later"
  by (auto simp: miss_or_expired_def split: option.splits iface.splits ptr.splits)

lemma coalescedCache_Get_fetches:
  "miss_or_expired (co_entries me) w key now \<Longrightarrow>
   coalescedCache_Get me w key now later = coalescedCache_fetchAndStore me w key later"
  by (auto simp: miss_or_expired_def singleflight_Do_def Let_def
      split: option.splits iface.splits ptr.splits sum.splits prod.splits)

lemma simpleCache_fetch_error:
  "store me key = (v, Some e) \<Longrightarrow>
   simpleCache_fetchAndStore me w key later =
     Inr ((Null, Some e), me, w\<lparr>queried := queried w @ [key]\<rparr>)"
  by simp

lemma coalescedCache_fetch_error:
  "co_store me key = (v, Some e) \<Longrightarrow>
   coalescedCache_fetchAndStore me w key later =
     Inr ((Null, Some e), me, w\<lparr>queried := queried w @ [key]\<rparr>)"
  by simp

text \<open>
  A \<^verbatim>\<open>Get\<close> that returns has called the adapter once if the key was absent or expired,
  and not at all otherwise.
\<close>

lemma simpleCache_Get_log:
  "simpleCache_Get me w key now later = Inr (r, me', w') \<Longrightarrow>
   queried w' =
     (if miss_or_expired (entries me) w key now then queried w @ [key] else queried w)"
  by (auto simp: miss_or_expired_def Let_def
      split: option.splits iface.splits ptr.splits sum.splits prod.splits if_splits bool.splits)

text \<open>
  What a returning call leaves alone: the adapter, the TTL and the value of every item;
  the entries change at most at the key of the call, to what the adapter returned.
\<close>

lemma simpleCache_fetchAndStore_frame:
  "simpleCache_fetchAndStore me w k now = Inr (r, me', w') \<Longrightarrow>
   store me' = store me \<and> ttl me' = ttl me \<and> Value (items w' b) = Value (items w b) \<and>
   (entries me' = entries me \<or> entries me' = (entries me)(k \<mapsto> fst (store me k)))"
  by (auto simp: Let_def dest: assertItem_Inr
      split: if_splits ptr.splits prod.splits option.splits sum.splits)

lemma simpleCache_Get_frame:
  "simpleCache_Get me w k now later = Inr (r, me', w') \<Longrightarrow>
   store me' = store me \<and> ttl me' = ttl me \<and> Value (items w' b) = Value (items w b) \<and>
   (entries me' = entries me \<or> entries me' = (entries me)(k \<mapsto> fst (store me k)))"
  using simpleCache_fetchAndStore_frame [of me w k later r me' w' b]
  by (auto simp del: simpleCache_fetchAndStore.simps split: option.splits sum.splits bool.splits)

text \<open>
  Along any run of \<^verbatim>\<open>Get\<close> calls, a key whose adapter answer is the item at \<open>a\<close> is
  either absent or mapped to that very pointer.
\<close>

lemma simpleCache_Gets_invariant:
  "simpleCache_Gets me w calls = Inr (me', w') \<Longrightarrow>
   store me key = (IItem (Addr a), None) \<Longrightarrow>
   entries me key = None \<or> entries me key = Some (IItem (Addr a)) \<Longrightarrow>
   store me' = store me \<and> ttl me' = ttl me \<and> (\<forall>b. Value (items w' b) = Value (items w b)) \<and>
   (entries me' key = None \<or> entries me' key = Some (IItem (Addr a)))"
proof (induction calls arbitrary: me w)
  case Nil
  then show ?case by simp
next
  case (Cons c calls)
  obtain k now later where c: "c = (k, now, later)" by (cases c) auto
  from Cons.prems(1) c obtain r m1 w1 where
    g: "simpleCache_Get me w k now later = Inr (r, m1, w1)" and
    rest: "simpleCache_Gets m1 w1 calls = Inr (me', w')"
    by (auto simp del: simpleCache_Get.simps split: sum.splits)
  have f: "store m1 = store me" "ttl m1 = ttl me" "\<forall>b. Value (items w1 b) = Value (items w b)"
    "entries m1 = entries me \<or> entries m1 = (entries me)(k \<mapsto> fst (store me k))"
    using simpleCache_Get_frame [OF g] by auto
  have inv1: "entries m1 key = None \<or> entries m1 key = Some (IItem (Addr a))"
    using f(4) Cons.prems(2,3) by (cases "k = key") auto
  have "store m1 key = (IItem (Addr a), None)" using f(1) Cons.prems(2) by simp
  from Cons.IH [OF rest this inv1] f show ?case by simp
qed

lemma simpleCache_Get_from_source:
  "store me key = (IItem (Addr a), None) \<Longrightarrow>
   entries me key = None \<or> entries me key = Some (IItem (Addr a)) \<Longrightarrow>
   \<exists>me' w'. simpleCache_Get me w key now later = Inr ((Addr a, None), me', w')"
  by (auto simp: Let_def split: bool.splits)

section \<open>Expiration policy\<close>

text \<open>
  C2. For every item and every instant \<open>now\<close>, \<^verbatim>\<open>Expired\<close> is false when the item's
  expiration is the zero instant, and otherwise it is true exactly when \<open>now\<close> is
  strictly after the expiration; at \<open>now\<close> equal to the expiration the item is not
  expired.
\<close>

theorem Expired_spec:
  "Expired (it :: 'v Item) now =
     (if Expiration it = 0 then False else now > Expiration it)"
  by (simp add: Expired_def IsZero_def Before_def)

section \<open>Errors of the adapter\<close>

text \<open>
  C3. When \<^verbatim>\<open>Get\<close> queries the adapter, that is when the key is absent or its entry
  has expired, and the query returns an error \<open>e\<close>, then \<^verbatim>\<open>Get\<close> returns exactly
  \<open>e\<close>, after one query and no more, and the handle and every item are as they were
  before the call: no entry is added, removed or changed. This holds for
  \<^verbatim>\<open>simpleCache\<close> and for \<^verbatim>\<open>coalescedCache\<close>.
\<close>

theorem Get_source_error:
  "(store me key = (v, Some e) \<and> miss_or_expired (entries me) w key now \<longrightarrow>
      simpleCache_Get me w key now later =
        Inr ((Null, Some e), me, w\<lparr>queried := queried w @ [key]\<rparr>)) \<and>
   (co_store cm key = (v, Some e) \<and> miss_or_expired (co_entries cm) w key now \<longrightarrow>
      coalescedCache_Get cm w key now later =
        Inr ((Null, Some e), cm, w\<lparr>queried := queried w @ [key]\<rparr>))"
  using simpleCache_Get_fetches simpleCache_fetch_error
    coalescedCache_Get_fetches coalescedCache_fetch_error
  by metis

theorem Get_source_error_witness:
  "failing_source ''key'' = (INil, Some ''unavailable'') \<and>
   miss_or_expired (entries (NewSimpleCache failing_source 1000)) hey_world ''key'' 10 \<and>
   simpleCache_Get (NewSimpleCache failing_source 1000) hey_world ''key'' 10 11 =
     Inr ((Null, Some ''unavailable''), NewSimpleCache failing_source 1000,
          hey_world\<lparr>queried := [''key'']\<rparr>) \<and>
   miss_or_expired (co_entries (NewCoalescedCache failing_source 1000)) hey_world ''key'' 10 \<and>
   coalescedCache_Get (NewCoalescedCache failing_source 1000) hey_world ''key'' 10 11 =
     Inr ((Null, Some ''unavailable''), NewCoalescedCache failing_source 1000,
          hey_world\<lparr>queried := [''key'']\<rparr>)"
proof -
  have s: "store (NewSimpleCache failing_source 1000) ''key'' = (INil, Some ''unavailable'')"
    "co_store (NewCoalescedCache failing_source 1000) ''key'' = (INil, Some ''unavailable'')"
    by (simp_all add: NewSimpleCache_def NewCoalescedCache_def failing_source_def)
  have m: "miss_or_expired (entries (NewSimpleCache failing_source 1000)) hey_world ''key'' 10"
    "miss_or_expired (co_entries (NewCoalescedCache failing_source 1000)) hey_world ''key'' 10"
    by (simp_all add: NewSimpleCache_def NewCoalescedCache_def miss_or_expired_def)
  have q: "queried hey_world = []" by (simp add: hey_world_def)
  show ?thesis
    using Get_source_error [of "NewSimpleCache failing_source 1000" "''key''" INil
        "''unavailable''" hey_world 10 11 "NewCoalescedCache failing_source 1000"] s m q
    by (simp add: failing_source_def del: simpleCache_Get.simps coalescedCache_Get.simps)
qed

text \<open>
  C4. When the adapter's query for the key fails, the item \<^verbatim>\<open>Get\<close> returns next to
  the error is the nil pointer: it carries no value. This holds for \<^verbatim>\<open>simpleCache\<close>
  and for \<^verbatim>\<open>coalescedCache\<close>.
\<close>

theorem Get_error_returns_nil:
  "(store me key = (v, Some e) \<and> miss_or_expired (entries me) w key now \<longrightarrow>
      (\<exists>me' w'. simpleCache_Get me w key now later = Inr ((Null, Some e), me', w'))) \<and>
   (co_store cm key = (v, Some e) \<and> miss_or_expired (co_entries cm) w key now \<longrightarrow>
      (\<exists>cm' w'. coalescedCache_Get cm w key now later = Inr ((Null, Some e), cm', w')))"
  using simpleCache_Get_fetches simpleCache_fetch_error
    coalescedCache_Get_fetches coalescedCache_fetch_error
  by metis

theorem Get_error_returns_nil_witness:
  "failing_source ''key'' = (INil, Some ''unavailable'') \<and>
   miss_or_expired [''key'' \<mapsto> IItem (Addr 0)] stamped_world ''key'' 10 \<and>
   (\<exists>me' w'. simpleCache_Get \<lparr>store = failing_source, ttl = 1000, entries = [''key'' \<mapsto> IItem (Addr 0)]\<rparr>
        stamped_world ''key'' 10 11 = Inr ((Null, Some ''unavailable''), me', w')) \<and>
   (\<exists>cm' w'. coalescedCache_Get \<lparr>co_store = failing_source, co_ttl = 1000, co_entries = [''key'' \<mapsto> IItem (Addr 0)]\<rparr>
        stamped_world ''key'' 10 11 = Inr ((Null, Some ''unavailable''), cm', w'))"
proof -
  have m: "miss_or_expired [''key'' \<mapsto> IItem (Addr 0)] stamped_world ''key'' 10"
    by (simp add: miss_or_expired_def stamped_world_def Expired_def IsZero_def Before_def)
  have s: "failing_source ''key'' = (INil, Some ''unavailable'')"
    by (simp add: failing_source_def)
  show ?thesis
    using Get_error_returns_nil [of
        "\<lparr>store = failing_source, ttl = 1000, entries = [''key'' \<mapsto> IItem (Addr 0)]\<rparr>"
        "''key''" INil "''unavailable''" stamped_world 10 11
        "\<lparr>co_store = failing_source, co_ttl = 1000, co_entries = [''key'' \<mapsto> IItem (Addr 0)]\<rparr>"] m s
    by (simp del: simpleCache_Get.simps coalescedCache_Get.simps)
qed

section \<open>Set\<close>

text \<open>
  C5. With a TTL greater than zero, \<^verbatim>\<open>Set(key, item)\<close> returns, maps \<open>key\<close> to
  the item, and the item then has the expiration \<open>now + ttl\<close> whatever expiration it
  had before, and the value it had before.
\<close>

theorem Set_stamps_expiration:
  "0 < ttl me \<Longrightarrow>
   \<exists>me' w'. simpleCache_Set me w key (Addr a) now = Inr (me', w') \<and>
     entries me' key = Some (IItem (Addr a)) \<and>
     stored_item (entries me') w' key =
       Some \<lparr>Value = Value (items w a), Expiration = now + ttl me\<rparr>"
  by (simp add: stored_item_def Add_def)

theorem Set_stamps_expiration_witness:
  "(0::int) < ttl (NewSimpleCache hey_source 1000) \<and>
   (\<exists>me' w'. simpleCache_Set (NewSimpleCache hey_source 1000) stamped_world ''key'' (Addr 3) 10
        = Inr (me', w') \<and>
      entries me' ''key'' = Some (IItem (Addr 3)) \<and>
      stored_item (entries me') w' ''key'' = Some \<lparr>Value = ''hey oh'', Expiration = 1010\<rparr>)"
proof -
  have h: "0 < ttl (NewSimpleCache hey_source 1000)" by (simp add: NewSimpleCache_def)
  have v: "Value (items stamped_world 3) = ''hey oh''" "ttl (NewSimpleCache hey_source 1000) = 1000"
    by (simp_all add: stamped_world_def NewSimpleCache_def)
  show ?thesis
    using Set_stamps_expiration [OF h, of stamped_world "''key''" 3 10] h v
    by (simp del: simpleCache_Set.simps)
qed

text \<open>
  C9. Calling \<^verbatim>\<open>Set(key, item)\<close> a second time, at \<open>t2\<close>, after a first call at
  \<open>t1\<close> has returned, gives the state that a single call at \<open>t2\<close> gives. The second
  call leaves the handle as the first left it; with a TTL greater than zero it
  restamps the item's expiration to \<open>t2 + ttl\<close> and changes nothing else, and
  otherwise it changes nothing at all.
\<close>

theorem Set_twice:
  "simpleCache_Set me w key item t1 = Inr (me1, w1) \<Longrightarrow>
   simpleCache_Set me1 w1 key item t2 = simpleCache_Set me w key item t2 \<and>
   (\<exists>w2. simpleCache_Set me1 w1 key item t2 = Inr (me1, w2) \<and>
      queried w2 = queried w1 \<and>
      (if 0 < ttl me
       then \<exists>a. item = Addr a \<and>
              items w2 = (items w1)(a := (items w1 a)\<lparr>Expiration := t2 + ttl me\<rparr>)
       else w2 = w1))"
  by (auto simp: Add_def split: if_splits ptr.splits)

theorem Set_twice_witness:
  "simpleCache_Set (NewSimpleCache hey_source 1000) hey_world ''key'' (Addr 0) 10 =
     Inr (\<lparr>store = hey_source, ttl = 1000, entries = [''key'' \<mapsto> IItem (Addr 0)]\<rparr>,
          hey_world\<lparr>items := (items hey_world)(0 := \<lparr>Value = ''hey oh'', Expiration = 1010\<rparr>)\<rparr>) \<and>
   simpleCache_Set \<lparr>store = hey_source, ttl = 1000, entries = [''key'' \<mapsto> IItem (Addr 0)]\<rparr>
       (hey_world\<lparr>items := (items hey_world)(0 := \<lparr>Value = ''hey oh'', Expiration = 1010\<rparr>)\<rparr>)
       ''key'' (Addr 0) 20 =
     simpleCache_Set (NewSimpleCache hey_source 1000) hey_world ''key'' (Addr 0) 20"
proof -
  have f: "simpleCache_Set (NewSimpleCache hey_source 1000) hey_world ''key'' (Addr 0) 10 =
     Inr (\<lparr>store = hey_source, ttl = 1000, entries = [''key'' \<mapsto> IItem (Addr 0)]\<rparr>,
          hey_world\<lparr>items := (items hey_world)(0 := \<lparr>Value = ''hey oh'', Expiration = 1010\<rparr>)\<rparr>)"
    by (simp add: NewSimpleCache_def hey_world_def Add_def)
  show ?thesis using Set_twice [OF f, of 20] f by (simp del: simpleCache_Set.simps)
qed

section \<open>The fetch path with a zero TTL\<close>

text \<open>
  C6, as the claim states it, fails: with a TTL of zero and an adapter whose item
  already carries the expiration instant 5, the entry stored by \<^verbatim>\<open>fetchAndStore\<close>
  still carries 5, and it counts as expired at instant 7.
\<close>

theorem fetchAndStore_zero_ttl_counterexample:
  "stored_after
     (simpleCache_fetchAndStore (NewSimpleCache hey_source 0) stamped_world ''key'' 7) ''key''
     = Some \<lparr>Value = ''hey oh'', Expiration = 5\<rparr> \<and>
   Expired \<lparr>Value = ''hey oh'', Expiration = 5\<rparr> 7"
  by (simp add: stored_after_def stored_item_def NewSimpleCache_def hey_source_def
      stamped_world_def Expired_def IsZero_def Before_def)

text \<open>
  C6, amended. With a TTL of zero, \<^verbatim>\<open>fetchAndStore\<close> on a successful query stores
  the adapter's item as it is: the stored entry has the expiration the adapter gave it,
  so it is unset exactly when the adapter left it unset.
\<close>

theorem fetchAndStore_zero_ttl:
  "ttl me = 0 \<Longrightarrow> store me key = (IItem (Addr a), None) \<Longrightarrow>
   simpleCache_fetchAndStore me w key now =
     Inr ((Addr a, None), me\<lparr>entries := (entries me)(key \<mapsto> IItem (Addr a))\<rparr>,
          w\<lparr>queried := queried w @ [key]\<rparr>) \<and>
   stored_after (simpleCache_fetchAndStore me w key now) key = Some (items w a)"
  by (simp add: stored_after_def stored_item_def)

theorem fetchAndStore_zero_ttl_witness:
  "ttl (NewSimpleCache hey_source 0) = 0 \<and>
   store (NewSimpleCache hey_source 0) ''key'' = (IItem (Addr 0), None) \<and>
   stored_after (simpleCache_fetchAndStore (NewSimpleCache hey_source 0) hey_world ''key'' 7) ''key''
     = Some \<lparr>Value = ''hey oh'', Expiration = 0\<rparr>"
proof -
  have t: "ttl (NewSimpleCache hey_source 0) = 0" by (simp add: NewSimpleCache_def)
  have s: "store (NewSimpleCache hey_source 0) ''key'' = (IItem (Addr 0), None)"
    by (simp add: NewSimpleCache_def hey_source_def)
  have i: "items hey_world 0 = \<lparr>Value = ''hey oh'', Expiration = 0\<rparr>"
    by (simp add: hey_world_def)
  have "stored_after
          (simpleCache_fetchAndStore (NewSimpleCache hey_source 0) hey_world ''key'' 7) ''key''
        = Some (items hey_world 0)"
    using fetchAndStore_zero_ttl [OF t s, of hey_world 7] by (rule conjunct2)
  with t s i show ?thesis by (simp only: simp_thms)
qed

section \<open>Get\<close>

text \<open>
  C7, as the claim states it, fails: an adapter may succeed, with a nil error, and
  still hand back a nil \<^verbatim>\<open>*Item\<close>. On a new cache with a TTL greater than zero,
  \<^verbatim>\<open>Get\<close> then panics in \<^verbatim>\<open>Set\<close> on the nil pointer; with a TTL of zero it returns
  the nil pointer with no error, so no entry and no value, and stores it.
\<close>

theorem Get_nil_item_counterexample:
  "nil_source ''key'' = (IItem Null, None) \<and>
   simpleCache_Get (NewSimpleCache nil_source 1000) hey_world ''key'' 10 11 =
     Inl NilDereference \<and>
   simpleCache_Get (NewSimpleCache nil_source 0) hey_world ''key'' 10 11 =
     Inr ((Null, None),
          \<lparr>store = nil_source, ttl = 0, entries = [''key'' \<mapsto> IItem Null]\<rparr>,
          hey_world\<lparr>queried := [''key'']\<rparr>) \<and>
   stored_item [''key'' \<mapsto> IItem Null] (hey_world\<lparr>queried := [''key'']\<rparr>) ''key'' = None"
  by (simp add: NewSimpleCache_def nil_source_def hey_world_def stored_item_def)

text \<open>
  C7, amended. Let the adapter answer \<open>key\<close> with a non-nil \<^verbatim>\<open>*Item\<close> and a nil
  error. After any run of \<^verbatim>\<open>Get\<close> calls on a new cache, \<^verbatim>\<open>Get(key)\<close> returns that
  item without error, whether it finds it stored or fetches it anew, and the item's
  value is the one the adapter's item had from the start.
\<close>

theorem Get_value_from_source:
  assumes src: "st key = (IItem (Addr a), None)"
    and run: "simpleCache_Gets (NewSimpleCache st d) w0 calls = Inr (me, w)"
  shows "\<exists>me' w'. simpleCache_Get me w key now later = Inr ((Addr a, None), me', w') \<and>
           Value (items w' a) = Value (items w0 a)"
proof -
  have "store me = st \<and> ttl me = d \<and> (\<forall>b. Value (items w b) = Value (items w0 b)) \<and>
        (entries me key = None \<or> entries me key = Some (IItem (Addr a)))"
    using simpleCache_Gets_invariant [OF run, of key a] src by (simp add: NewSimpleCache_def)
  then have s: "store me key = (IItem (Addr a), None)"
    and v: "Value (items w a) = Value (items w0 a)"
    and i: "entries me key = None \<or> entries me key = Some (IItem (Addr a))"
    using src by auto
  from simpleCache_Get_from_source [OF s i] obtain me' w' where
    g: "simpleCache_Get me w key now later = Inr ((Addr a, None), me', w')" by blast
  from simpleCache_Get_frame [OF g, of a] v show ?thesis using g by auto
qed

theorem Get_value_from_source_witness:
  "hey_source ''key'' = (IItem (Addr 0), None) \<and>
   simpleCache_Gets (NewSimpleCache hey_source 1000) hey_world [(''key'', 10, 11)] =
     Inr (\<lparr>store = hey_source, ttl = 1000, entries = [''key'' \<mapsto> IItem (Addr 0)]\<rparr>,
          \<lparr>items = (items hey_world)(0 := \<lparr>Value = ''hey oh'', Expiration = 1011\<rparr>),
           queried = [''key'']\<rparr>) \<and>
   (\<exists>me' w'. simpleCache_Get
        \<lparr>store = hey_source, ttl = 1000, entries = [''key'' \<mapsto> IItem (Addr 0)]\<rparr>
        \<lparr>items = (items hey_world)(0 := \<lparr>Value = ''hey oh'', Expiration = 1011\<rparr>),
         queried = [''key'']\<rparr> ''key'' 12 13 = Inr ((Addr 0, None), me', w') \<and>
      Value (items w' 0) = ''hey oh'')"
proof -
  have s: "hey_source ''key'' = (IItem (Addr 0), None)" by (simp add: hey_source_def)
  have r: "simpleCache_Gets (NewSimpleCache hey_source 1000) hey_world [(''key'', 10, 11)] =
     Inr (\<lparr>store = hey_source, ttl = 1000, entries = [''key'' \<mapsto> IItem (Addr 0)]\<rparr>,
          \<lparr>items = (items hey_world)(0 := \<lparr>Value = ''hey oh'', Expiration = 1011\<rparr>),
           queried = [''key'']\<rparr>)"
    by (simp add: NewSimpleCache_def hey_source_def hey_world_def Add_def)
  have v: "Value (items hey_world 0) = ''hey oh''" by (simp add: hey_world_def)
  show ?thesis
    using Get_value_from_source [OF s r, of 12 13] s r v
    by (simp del: simpleCache_Get.simps simpleCache_Gets.simps)
qed

text \<open>
  C8. When \<open>key\<close> is mapped to an item that is not expired at \<open>now\<close>,
  \<^verbatim>\<open>Get(key)\<close> returns that item and no error, and leaves the handle, the items and
  the log of adapter calls as they were: the adapter is not called and no key's entry
  changes.
\<close>

theorem Get_fresh_hit:
  "entries me key = Some (IItem (Addr a)) \<Longrightarrow> \<not> Expired (items w a) now \<Longrightarrow>
   simpleCache_Get me w key now later = Inr ((Addr a, None), me, w)"
  by simp

theorem Get_fresh_hit_witness:
  "\<not> Expired (items stamped_world 0) 5 \<and>
   simpleCache_Get \<lparr>store = failing_source, ttl = 1000, entries = [''key'' \<mapsto> IItem (Addr 0)]\<rparr>
     stamped_world ''key'' 5 6 =
     Inr ((Addr 0, None),
          \<lparr>store = failing_source, ttl = 1000, entries = [''key'' \<mapsto> IItem (Addr 0)]\<rparr>,
          stamped_world)"
proof -
  have e: "entries \<lparr>store = failing_source, ttl = 1000, entries = [''key'' \<mapsto> IItem (Addr 0)]\<rparr>
             ''key'' = Some (IItem (Addr 0))" by simp
  have f: "\<not> Expired (items stamped_world 0) 5"
    by (simp add: stamped_world_def Expired_def IsZero_def Before_def)
  show ?thesis using Get_fresh_hit [OF e f, of 6] f by simp
qed

text \<open>
  C10. When the adapter answers with a nil error and a value whose dynamic type is not
  \<^verbatim>\<open>*Item\<close>, \<^verbatim>\<open>Get\<close> on an absent or expired key panics at the type assertion of
  \<^verbatim>\<open>fetchAndStore\<close> and returns nothing, in \<^verbatim>\<open>simpleCache\<close> and in
  \<^verbatim>\<open>coalescedCache\<close>.
\<close>

theorem Get_panics_on_other_type:
  "(store me key = (v, None) \<and> (\<forall>p. v \<noteq> IItem p) \<and> miss_or_expired (entries me) w key now \<longrightarrow>
      simpleCache_Get me w key now later = Inl TypeAssertion) \<and>
   (co_store cm key = (v, None) \<and> (\<forall>p. v \<noteq> IItem p) \<and>
      miss_or_expired (co_entries cm) w key now \<longrightarrow>
      coalescedCache_Get cm w key now later = Inl TypeAssertion)"
  by (simp add: simpleCache_Get_fetches coalescedCache_Get_fetches assertItem_other
      del: simpleCache_Get.simps coalescedCache_Get.simps)

theorem Get_panics_on_other_type_witness:
  "plain_source ''key'' = (IOther ''hey oh'', None) \<and>
   miss_or_expired (entries (NewSimpleCache plain_source 1000)) hey_world ''key'' 10 \<and>
   simpleCache_Get (NewSimpleCache plain_source 1000) hey_world ''key'' 10 11 = Inl TypeAssertion \<and>
   miss_or_expired [''key'' \<mapsto> IItem (Addr 0)] stamped_world ''key'' 10 \<and>
   coalescedCache_Get
     \<lparr>co_store = plain_source, co_ttl = 1000, co_entries = [''key'' \<mapsto> IItem (Addr 0)]\<rparr>
     stamped_world ''key'' 10 11 = Inl TypeAssertion"
proof -
  have s: "plain_source ''key'' = (IOther ''hey oh'', None)" by (simp add: plain_source_def)
  have n: "\<forall>p. IOther ''hey oh'' \<noteq> IItem p" by simp
  have m1: "miss_or_expired (entries (NewSimpleCache plain_source 1000)) hey_world ''key'' 10"
    by (simp add: miss_or_expired_def NewSimpleCache_def)
  have m2: "miss_or_expired [''key'' \<mapsto> IItem (Addr 0)] stamped_world ''key'' 10"
    by (simp add: miss_or_expired_def stamped_world_def Expired_def IsZero_def Before_def)
  have st: "store (NewSimpleCache plain_source 1000) = plain_source"
    by (simp add: NewSimpleCache_def)
  show ?thesis
    using Get_panics_on_other_type [of "NewSimpleCache plain_source 1000" "''key''"
        "IOther ''hey oh''" hey_world 10 11
        "\<lparr>co_store = plain_source, co_ttl = 1000, co_entries = [''key'' \<mapsto> IItem (Addr 0)]\<rparr>"
        ] s n m1 st
      Get_panics_on_other_type [of "NewSimpleCache plain_source 1000" "''key''"
        "IOther ''hey oh''" stamped_world 10 11
        "\<lparr>co_store = plain_source, co_ttl = 1000, co_entries = [''key'' \<mapsto> IItem (Addr 0)]\<rparr>"
        ] m2
    by (simp del: simpleCache_Get.simps coalescedCache_Get.simps)
qed

end
